theory Spec2Isabelle
  imports Main "HOL-Library.Word" "HOL-Library.AList" "HOL-Library.Signed_Division"
begin

section \<open>Desktop duplication sessions of libobs-d3d11 (d3d11-duplicator.cpp)\<close>

text \<open>
  The development embeds \<^verbatim>\<open>src/libobs-d3d11/d3d11-duplicator.cpp\<close>. Calls that leave the
  file (DXGI, Direct3D, the window system, libobs graphics helpers) are answered by an
  environment record, and every such call is written to a trace of events in program order.
\<close>

subsection \<open>Result codes\<close>

type_synonym hresult = "32 word"

text \<open>\<^verbatim>\<open>FAILED(hr)\<close> is \<^verbatim>\<open>((HRESULT)(hr)) < 0\<close> on a signed 32-bit value.\<close>

definition FAILED :: "hresult \<Rightarrow> bool" where
  "FAILED hr = (sint hr < 0)"

definition SUCCEEDED :: "hresult \<Rightarrow> bool" where
  "SUCCEEDED hr = (0 \<le> sint hr)"

definition DXGI_ERROR_NOT_FOUND :: hresult where
  "DXGI_ERROR_NOT_FOUND = 0x887A0002"

definition DXGI_ERROR_ACCESS_LOST :: hresult where
  "DXGI_ERROR_ACCESS_LOST = 0x887A0026"

definition DXGI_ERROR_WAIT_TIMEOUT :: hresult where
  "DXGI_ERROR_WAIT_TIMEOUT = 0x887A0027"

text \<open>The two kinds of value the file throws: a string literal and an \<^verbatim>\<open>HRError\<close>.\<close>

datatype error = Thrown string | HRError string hresult

subsection \<open>Data\<close>

datatype dxgi_format =
    DXGI_FORMAT_R16G16B16A16_FLOAT
  | DXGI_FORMAT_B8G8R8A8_UNORM
  | DXGI_FORMAT_other nat

datatype gs_color_format = GS_BGRA | GS_format_other nat

datatype gs_color_space = GS_CS_SRGB | GS_CS_SRGB_16F | GS_CS_709_SCRGB

record RECT =
  rect_left :: "32 word"
  rect_top :: "32 word"
  rect_right :: "32 word"
  rect_bottom :: "32 word"

record gs_rect =
  rect_x :: "32 word"
  rect_y :: "32 word"
  rect_cx :: "32 word"
  rect_cy :: "32 word"

record D3D11_TEXTURE2D_DESC =
  Width :: "32 word"
  Height :: "32 word"
  Format :: dxgi_format

text \<open>
  A native frame as the provider delivers it: its descriptor and its pixels, the latter an
  opaque number.
\<close>

record native_frame =
  frame_desc :: D3D11_TEXTURE2D_DESC
  frame_image :: nat

text \<open>
  \<^verbatim>\<open>gs_texture_2d\<close>: \<open>tex_id\<close> is the identity of the object (its allocation number),
  \<open>tex_texture\<close> says that the \<^verbatim>\<open>ID3D11Texture2D\<close> pointer inside is not null, \<open>image\<close>
  is what the GPU resource holds.
\<close>

record gs_texture_2d =
  tex_id :: nat
  width :: "32 word"
  height :: "32 word"
  format :: gs_color_format
  tex_texture :: bool
  image :: "nat option"

text \<open>
  \<^verbatim>\<open>gs_swap_chain\<close>: identity, the size of \<^verbatim>\<open>target\<close>, \<^verbatim>\<open>target.renderTarget[0]\<close>
  (null or a view), \<^verbatim>\<open>target.texture\<close> and whether \<^verbatim>\<open>hWaitable\<close> is set.
\<close>

record gs_swap_chain =
  sc_id :: nat
  target_width :: "32 word"
  target_height :: "32 word"
  target_renderTarget0 :: "nat option"
  target_texture :: nat
  hWaitable :: bool

text \<open>
  The part of \<^verbatim>\<open>gs_device\<close> the file touches: \<^verbatim>\<open>curSwapChain\<close>, \<^verbatim>\<open>viewport\<close>, the render
  target bound on \<^verbatim>\<open>context\<close>, and the number of textures created so far.
\<close>

record gs_device =
  curSwapChain :: "nat option"
  viewport :: gs_rect
  context_renderTarget :: "nat option"
  tex_serial :: nat

text \<open>
  \<^verbatim>\<open>gs_duplicator\<close>. \<open>duplicator\<close> says that the \<^verbatim>\<open>IDXGIOutputDuplication\<close> pointer is not
  null; \<open>refs\<close> is a \<^verbatim>\<open>long\<close> (32 bits on the platform of this file);
  \<open>sdr_white_nits\<close> is a float in the source; it only ever holds the constant 80 or an
  unsigned integer converted to float, so the model keeps the integer that the float equals.
\<close>

record gs_duplicator =
  duplicator :: bool
  texture :: "gs_texture_2d option"
  hdr :: bool
  color_space :: gs_color_space
  sdr_white_nits :: int
  idx :: int
  refs :: "32 word"
  updated :: bool
  displayWindow :: "nat option"
  displaySwapChain :: "gs_swap_chain option"

subsection \<open>Effects\<close>

datatype event =
    EvLog string
  | EvAcquireNextFrame hresult
  | EvQueryInterface hresult
  | EvReleaseFrame
  | EvDeleteTexture nat
  | EvTextureCreate "32 word" "32 word" gs_color_format
  | EvCopyResource nat nat
  | EvResize "32 word" "32 word" gs_color_format
  | EvSetCurSwapChain "nat option"
  | EvSetViewport gs_rect
  | EvClearRenderTargetView nat
  | EvOMSetRenderTargets nat
  | EvCopySubresourceRegion nat nat "32 word" "32 word"
  | EvSwapPresent nat nat

subsection \<open>The environment of one update call\<close>

text \<open>
  What the provider, the GPU and the window system answer during one call of
  \<^verbatim>\<open>gs_duplicator_update_frame\<close>. \<^verbatim>\<open>ConvertDXGITextureFormat\<close> and
  \<^verbatim>\<open>gs_generalize_format\<close> are defined outside the file and are parameters here.
  \<open>Resize\<close> answers \<^verbatim>\<open>gs_swap_chain::Resize\<close>: \<open>Inl\<close> is the \<^verbatim>\<open>HRError\<close> it throws, with
  the swap chain as the failed call leaves it.
\<close>

record frame_env =
  AcquireNextFrame :: hresult
  acquired_frame :: native_frame
  QueryInterface_Texture2D :: hresult
  ConvertDXGITextureFormat :: "dxgi_format \<Rightarrow> gs_color_format"
  gs_generalize_format :: "gs_color_format \<Rightarrow> gs_color_format"
  texture_create_succeeds :: bool
  IsWindowVisible :: bool
  GetClientRect :: RECT
  Resize :: "gs_swap_chain \<Rightarrow> 32 word \<Rightarrow> 32 word \<Rightarrow> ((string \<times> hresult) \<times> gs_swap_chain) + gs_swap_chain"

subsection \<open>Texture creation\<close>

text \<open>
  Modelled from the spec: \<^verbatim>\<open>gs_texture_create\<close> is not in the source file. The spec has
  the GPU binding allocate a texture of the requested size and format
  (``allocate a new one sized to the incoming frame'') and names allocation failure as an
  outcome (``ResourceCreationFailure''); the caller in the source tests the result for null.
  A texture that is created is a new object: it takes the next allocation number.
\<close>

definition gs_texture_create ::
  "frame_env \<Rightarrow> gs_device \<Rightarrow> 32 word \<Rightarrow> 32 word \<Rightarrow> gs_color_format \<Rightarrow> gs_texture_2d option \<times> gs_device" where
  "gs_texture_create env dev w h fmt =
     (if texture_create_succeeds env
      then (Some \<lparr>tex_id = tex_serial dev, width = w, height = h, format = fmt,
                  tex_texture = True, image = None\<rparr>,
            dev\<lparr>tex_serial := Suc (tex_serial dev)\<rparr>)
      else (None, dev))"

subsection \<open>\<^verbatim>\<open>gs_duplicator::PresentFrame\<close>\<close>

text \<open>Lines 234 to 284: the drawing, once the window and the surface have been checked.\<close>

definition PresentFrame_draw ::
  "gs_device \<Rightarrow> gs_swap_chain \<Rightarrow> gs_texture_2d \<Rightarrow> gs_device \<times> event list" where
  "PresentFrame_draw dev sc t =
     (let prevSwapChain = curSwapChain dev;
          vp = \<lparr>rect_x = 0, rect_y = 0, rect_cx = target_width sc, rect_cy = target_height sc\<rparr>;
          dev1 = dev\<lparr>curSwapChain := Some (sc_id sc), viewport := vp\<rparr>;
          evs1 = [EvSetCurSwapChain (Some (sc_id sc)), EvSetViewport vp]
      in case target_renderTarget0 sc of
           None \<Rightarrow>
             (dev1\<lparr>curSwapChain := prevSwapChain\<rparr>,
              evs1 @ [EvLog ''Missing render target view'', EvSetCurSwapChain prevSwapChain])
         | Some rtv \<Rightarrow>
             (dev1\<lparr>context_renderTarget := Some rtv, curSwapChain := prevSwapChain\<rparr>,
              evs1 @ [EvClearRenderTargetView rtv,
                      EvOMSetRenderTargets rtv,
                      EvCopySubresourceRegion (target_texture sc) (tex_id t) (width t) (height t),
                      EvSwapPresent (sc_id sc) (if hWaitable sc then 1 else 0),
                      EvSetCurSwapChain prevSwapChain]))"

text \<open>Lines 213 to 232 and onwards: the client area, the resize, then the drawing.\<close>

definition PresentFrame_sized ::
  "frame_env \<Rightarrow> gs_device \<Rightarrow> gs_duplicator \<Rightarrow> gs_swap_chain \<Rightarrow> gs_texture_2d \<Rightarrow>
     gs_device \<times> gs_duplicator \<times> event list" where
  "PresentFrame_sized env dev d sc t =
     (let clientRect = GetClientRect env;
          windowWidth = rect_right clientRect - rect_left clientRect;
          windowHeight = rect_bottom clientRect - rect_top clientRect
      in if windowWidth = 0 \<or> windowHeight = 0 then (dev, d, [])
         else if windowWidth \<noteq> target_width sc \<or> windowHeight \<noteq> target_height sc then
           (case Resize env sc windowWidth windowHeight of
              Inl (err, sc') \<Rightarrow>
                (dev, d\<lparr>displaySwapChain := Some sc'\<rparr>,
                 [EvResize windowWidth windowHeight GS_BGRA,
                  EvLog ''Failed to resize swap chain''])
            | Inr sc' \<Rightarrow>
                (let (dev', evs) = PresentFrame_draw dev sc' t
                 in (dev', d\<lparr>displaySwapChain := Some sc'\<rparr>,
                     EvResize windowWidth windowHeight GS_BGRA # evs)))
         else (let (dev', evs) = PresentFrame_draw dev sc t in (dev', d, evs)))"

text \<open>
  The whole function. The window handle, the swap chain and the texture are pointers of the
  session; a null one ends the call at once, as do a null resource inside the texture and
  a hidden window.
\<close>

definition PresentFrame ::
  "frame_env \<Rightarrow> gs_device \<Rightarrow> gs_duplicator \<Rightarrow> gs_device \<times> gs_duplicator \<times> event list" where
  "PresentFrame env dev d =
     (case (displayWindow d, displaySwapChain d, texture d) of
        (Some hwnd, Some sc, Some t) \<Rightarrow>
          (if \<not> tex_texture t then (dev, d, [])
           else if \<not> IsWindowVisible env then (dev, d, [])
           else PresentFrame_sized env dev d sc t)
      | _ \<Rightarrow> (dev, d, []))"

subsection \<open>\<^verbatim>\<open>copy_texture\<close>\<close>

definition needs_new_texture ::
  "gs_texture_2d option \<Rightarrow> D3D11_TEXTURE2D_DESC \<Rightarrow> gs_color_format \<Rightarrow> bool" where
  "needs_new_texture cached desc general_format =
     (case cached of
        None \<Rightarrow> True
      | Some t \<Rightarrow> width t \<noteq> Width desc \<or> height t \<noteq> Height desc \<or> format t \<noteq> general_format)"

definition copy_texture ::
  "frame_env \<Rightarrow> gs_device \<Rightarrow> gs_duplicator \<Rightarrow> native_frame \<Rightarrow> gs_device \<times> gs_duplicator \<times> event list" where
  "copy_texture env dev d tex =
     (let desc = frame_desc tex;
          fmt = ConvertDXGITextureFormat env (Format desc);
          general_format = gs_generalize_format env fmt;
          (dev1, d1, evs1) =
            (if needs_new_texture (texture d) desc general_format then
               (let (created, dev') = gs_texture_create env dev (Width desc) (Height desc) general_format
                in (dev',
                    d\<lparr>texture := created,
                      color_space :=
                        (if hdr d then GS_CS_709_SCRGB
                         else if Format desc = DXGI_FORMAT_R16G16B16A16_FLOAT then GS_CS_SRGB_16F
                         else GS_CS_SRGB)\<rparr>,
                    (case texture d of None \<Rightarrow> [] | Some old \<Rightarrow> [EvDeleteTexture (tex_id old)])
                    @ [EvTextureCreate (Width desc) (Height desc) general_format]))
             else (dev, d, []))
      in case texture d1 of
           None \<Rightarrow> (dev1, d1, evs1)
         | Some t \<Rightarrow>
             (dev1, d1\<lparr>texture := Some (t\<lparr>image := Some (frame_image tex)\<rparr>)\<rparr>,
              evs1 @ [EvCopyResource (tex_id t) (frame_image tex)]))"

subsection \<open>\<^verbatim>\<open>gs_duplicator_update_frame\<close>\<close>

definition gs_duplicator_update_frame ::
  "frame_env \<Rightarrow> gs_device \<Rightarrow> gs_duplicator \<Rightarrow> bool \<times> gs_device \<times> gs_duplicator \<times> event list" where
  "gs_duplicator_update_frame env dev d =
     (if \<not> duplicator d then (False, dev, d, [])
      else if displayWindow d \<noteq> None \<and> displaySwapChain d \<noteq> None \<and> texture d \<noteq> None \<and> updated d
      then (let (dev', d', evs) = PresentFrame env dev d in (True, dev', d', evs))
      else
        let hr = AcquireNextFrame env in
        if hr = DXGI_ERROR_ACCESS_LOST then (False, dev, d, [EvAcquireNextFrame hr])
        else if hr = DXGI_ERROR_WAIT_TIMEOUT then (True, dev, d, [EvAcquireNextFrame hr])
        else if FAILED hr then
          (True, dev, d,
           [EvAcquireNextFrame hr, EvLog ''gs_duplicator_update_frame: Failed to update frame''])
        else
          let hr2 = QueryInterface_Texture2D env in
          if FAILED hr2 then
            (True, dev, d,
             [EvAcquireNextFrame hr, EvQueryInterface hr2,
              EvLog ''gs_duplicator_update_frame: Failed to query ID3D11Texture2D'',
              EvReleaseFrame])
          else
            let (dev1, d1, evs1) = copy_texture env dev d (acquired_frame env);
                d2 = d1\<lparr>updated := True\<rparr>;
                (dev3, d3, evs3) =
                  (if displayWindow d2 \<noteq> None \<and> displaySwapChain d2 \<noteq> None
                   then PresentFrame env dev1 d2
                   else (dev1, d2, []))
            in (True, dev3, d3,
                [EvAcquireNextFrame hr, EvQueryInterface hr2] @ evs1 @ [EvReleaseFrame] @ evs3))"

text \<open>Projections of the result of an update call.\<close>

definition update_ret :: "bool \<times> gs_device \<times> gs_duplicator \<times> event list \<Rightarrow> bool" where
  "update_ret r = fst r"

definition update_dev :: "bool \<times> gs_device \<times> gs_duplicator \<times> event list \<Rightarrow> gs_device" where
  "update_dev r = fst (snd r)"

definition update_dup :: "bool \<times> gs_device \<times> gs_duplicator \<times> event list \<Rightarrow> gs_duplicator" where
  "update_dup r = fst (snd (snd r))"

definition update_trace :: "bool \<times> gs_device \<times> gs_duplicator \<times> event list \<Rightarrow> event list" where
  "update_trace r = snd (snd (snd r))"

subsection \<open>Construction: \<^verbatim>\<open>get_monitor\<close>, \<^verbatim>\<open>Start\<close>, \<^verbatim>\<open>CreateDisplayWindow\<close>\<close>

text \<open>
  What the provider and the window system answer while a session is constructed. The two
  calls of \<^verbatim>\<open>get_monitor\<close> and of \<^verbatim>\<open>GetDesc\<close> have answers of their own.
  \<open>color_space_default\<close> is the initial value that the class declaration, which is not in the
  file, gives to \<^verbatim>\<open>color_space\<close>.
\<close>

record startup_env =
  EnumOutputs :: "int \<Rightarrow> hresult"
  QueryInterface_Output5 :: hresult
  DuplicateOutput1 :: hresult
  GetDesc :: hresult
  GetMonitorColorInfo :: "bool \<times> 32 word"
  QueryInterface_Output1 :: hresult
  DuplicateOutput :: hresult
  color_space_default :: gs_color_space
  RegisterClassW :: bool
  window_EnumOutputs :: "int \<Rightarrow> hresult"
  window_GetDesc :: hresult
  DesktopCoordinates :: RECT
  CreateWindowW :: "32 word \<Rightarrow> 32 word \<Rightarrow> nat option"
  new_gs_swap_chain :: "nat \<Rightarrow> 32 word \<Rightarrow> 32 word \<Rightarrow> error + gs_swap_chain"

text \<open>
  The cast \<^verbatim>\<open>(float)info.sdr_white_nits\<close> of an unsigned 32-bit integer: a float has 24
  significant bits, and a longer value is rounded to the nearest float, to the even one on
  a tie. \<open>bit_length\<close> is the number of binary digits.
\<close>

fun bit_length :: "nat \<Rightarrow> nat" where
  "bit_length n = (if n = 0 then 0 else Suc (bit_length (n div 2)))"

definition float_of_ulong :: "nat \<Rightarrow> int" where
  "float_of_ulong n =
     (let e = bit_length n - 24;
          q = n div 2 ^ e;
          r = n mod 2 ^ e
      in int ((if 2 ^ e < 2 * r \<or> (2 * r = 2 ^ e \<and> odd q) then q + 1 else q) * 2 ^ e))"

text \<open>\<open>Inr False\<close> is the return of false, \<open>Inl\<close> the \<^verbatim>\<open>HRError\<close> thrown.\<close>

definition get_monitor :: "(int \<Rightarrow> hresult) \<Rightarrow> int \<Rightarrow> error + bool" where
  "get_monitor enum monitor_idx =
     (let hr = enum monitor_idx
      in if FAILED hr then
           (if hr = DXGI_ERROR_NOT_FOUND then Inr False
            else Inl (HRError ''Failed to get output'' hr))
         else Inr True)"

text \<open>
  \<^verbatim>\<open>RegisterDisplayWindowClass\<close>: the static flag \<^verbatim>\<open>registered\<close> is passed in and
  returned with the result.
\<close>

definition RegisterDisplayWindowClass :: "startup_env \<Rightarrow> bool \<Rightarrow> bool \<times> bool" where
  "RegisterDisplayWindowClass env reg =
     (if reg then (True, reg)
      else if \<not> RegisterClassW env then (False, reg)
      else (True, True))"

text \<open>Division of a signed 32-bit \<^verbatim>\<open>int\<close> by two, rounding towards zero.\<close>

definition half :: "32 word \<Rightarrow> 32 word" where
  "half w = word_of_int (sint w sdiv 2)"

definition CreateDisplayWindow ::
  "startup_env \<Rightarrow> bool \<Rightarrow> gs_duplicator \<Rightarrow> bool \<times> (error + gs_duplicator)" where
  "CreateDisplayWindow env reg d =
     (let (ok, reg') = RegisterDisplayWindowClass env reg
      in if \<not> ok then (reg', Inr d)
         else
           (case get_monitor (window_EnumOutputs env) (idx d) of
              Inl e \<Rightarrow> (reg', Inl e)
            | Inr found \<Rightarrow>
                if \<not> found then (reg', Inr d)
                else if FAILED (window_GetDesc env) then (reg', Inr d)
                else
                  (let monitorRect = DesktopCoordinates env;
                       w = rect_right monitorRect - rect_left monitorRect;
                       h = rect_bottom monitorRect - rect_top monitorRect
                   in case CreateWindowW env (half w) (half h) of
                        None \<Rightarrow> (reg', Inr (d\<lparr>displayWindow := None\<rparr>))
                      | Some hwnd \<Rightarrow>
                          (case new_gs_swap_chain env hwnd (half w) (half h) of
                             Inr sc \<Rightarrow>
                               (reg', Inr (d\<lparr>displayWindow := Some hwnd,
                                             displaySwapChain := Some sc\<rparr>))
                           | Inl (HRError str hr) \<Rightarrow> (reg', Inr (d\<lparr>displayWindow := None\<rparr>))
                           | Inl (Thrown str) \<Rightarrow> (reg', Inl (Thrown str))))))"

definition Start ::
  "startup_env \<Rightarrow> bool \<Rightarrow> gs_duplicator \<Rightarrow> bool \<times> (error + gs_duplicator)" where
  "Start env reg d =
     (case get_monitor (EnumOutputs env) (idx d) of
        Inl e \<Rightarrow> (reg, Inl e)
      | Inr found \<Rightarrow>
          if \<not> found then (reg, Inl (Thrown ''Invalid monitor index''))
          else
            (let d1 = d\<lparr>hdr := False, sdr_white_nits := 80\<rparr>
             in if SUCCEEDED (QueryInterface_Output5 env) then
                  (if FAILED (DuplicateOutput1 env)
                   then (reg, Inl (HRError ''Failed to DuplicateOutput1'' (DuplicateOutput1 env)))
                   else
                     (let d2 = d1\<lparr>duplicator := True\<rparr>;
                          d3 = (if SUCCEEDED (GetDesc env)
                                then d2\<lparr>hdr := fst (GetMonitorColorInfo env),
                                        sdr_white_nits :=
                                          float_of_ulong (unat (snd (GetMonitorColorInfo env)))\<rparr>
                                else d2)
                      in CreateDisplayWindow env reg d3))
                else if FAILED (QueryInterface_Output1 env)
                then (reg, Inl (HRError ''Failed to query IDXGIOutput1'' (QueryInterface_Output1 env)))
                else if FAILED (DuplicateOutput env)
                then (reg, Inl (HRError ''Failed to DuplicateOutput'' (DuplicateOutput env)))
                else CreateDisplayWindow env reg (d1\<lparr>duplicator := True\<rparr>)))"

text \<open>The constructor: the member initialisers, then \<^verbatim>\<open>Start\<close>.\<close>

definition gs_duplicator_new ::
  "startup_env \<Rightarrow> bool \<Rightarrow> int \<Rightarrow> bool \<times> (error + gs_duplicator)" where
  "gs_duplicator_new env reg monitor_idx =
     Start env reg
       \<lparr>duplicator = False, texture = None, hdr = False,
        color_space = color_space_default env, sdr_white_nits = 80,
        idx = monitor_idx, refs = 1, updated = False,
        displayWindow = None, displaySwapChain = None\<rparr>"

subsection \<open>The registry: \<^verbatim>\<open>instances\<close>\<close>

text \<open>
  The global state of the file: the map \<^verbatim>\<open>instances\<close> from monitor index to session
  pointer, the sessions that are alive (by address), the number of sessions constructed so
  far, which is the address of the next one, and the static flag of the window class.
\<close>

record registry =
  instances :: "(int \<times> nat) list"
  heap :: "nat \<Rightarrow> gs_duplicator option"
  next_addr :: nat
  registered :: bool

definition reset_duplicators :: "registry \<Rightarrow> registry" where
  "reset_duplicators w =
     w\<lparr>heap :=
         fold (\<lambda>(k, a) h. case h a of None \<Rightarrow> h | Some d \<Rightarrow> h(a \<mapsto> d\<lparr>updated := False\<rparr>))
              (instances w) (heap w)\<rparr>"

text \<open>
  \<^verbatim>\<open>device_duplicator_create\<close> returns the session pointer (\<open>None\<close> is \<^verbatim>\<open>nullptr\<close>) and
  the new global state. Both kinds of thrown value are caught. An entry of \<^verbatim>\<open>instances\<close>
  whose session is not alive does not arise from the functions of the file; the model leaves
  the state as it is there.
\<close>

definition device_duplicator_create ::
  "startup_env \<Rightarrow> int \<Rightarrow> registry \<Rightarrow> nat option \<times> registry" where
  "device_duplicator_create env monitor_idx w =
     (case map_of (instances w) monitor_idx of
        Some a \<Rightarrow>
          (case heap w a of
             Some d \<Rightarrow> (Some a, w\<lparr>heap := (heap w)(a \<mapsto> d\<lparr>refs := refs d + 1\<rparr>)\<rparr>)
           | None \<Rightarrow> (Some a, w))
      | None \<Rightarrow>
          (case gs_duplicator_new env (registered w) monitor_idx of
             (reg', Inr d) \<Rightarrow>
               (Some (next_addr w),
                w\<lparr>instances := AList.update monitor_idx (next_addr w) (instances w),
                  heap := (heap w)(next_addr w \<mapsto> d),
                  next_addr := Suc (next_addr w),
                  registered := reg'\<rparr>)
           | (reg', Inl e) \<Rightarrow> (None, w\<lparr>registered := reg'\<rparr>)))"


subsection \<open>Observations on traces\<close>

text \<open>The events that are calls to the capture provider.\<close>

fun provider_event :: "event \<Rightarrow> bool" where
  "provider_event (EvAcquireNextFrame hr) = True"
| "provider_event (EvQueryInterface hr) = True"
| "provider_event EvReleaseFrame = True"
| "provider_event e = False"

text \<open>
  An update polls the provider when the capture handle is there and the call does not take
  the branch that presents the cached frame again (lines 449 to 458).
\<close>

definition polls_provider :: "gs_duplicator \<Rightarrow> bool" where
  "polls_provider d =
     (duplicator d \<and>
      \<not> (displayWindow d \<noteq> None \<and> displaySwapChain d \<noteq> None \<and> texture d \<noteq> None \<and> updated d))"

text \<open>How often a trace releases the frame handle, and how often it acquires a frame.\<close>

definition released_frames :: "event list \<Rightarrow> nat" where
  "released_frames evs = length (filter (\<lambda>e. e = EvReleaseFrame) evs)"

fun frame_acquired :: "event \<Rightarrow> bool" where
  "frame_acquired (EvAcquireNextFrame hr) = SUCCEEDED hr"
| "frame_acquired e = False"

definition acquired_frames :: "event list \<Rightarrow> nat" where
  "acquired_frames evs = length (filter frame_acquired evs)"

text \<open>
  The size of the client area as \<^verbatim>\<open>PresentFrame\<close> computes it, and whether a call of
  \<^verbatim>\<open>PresentFrame\<close> gets as far as asking for it (lines 204 to 211).
\<close>

definition windowWidth :: "frame_env \<Rightarrow> 32 word" where
  "windowWidth env = rect_right (GetClientRect env) - rect_left (GetClientRect env)"

definition windowHeight :: "frame_env \<Rightarrow> 32 word" where
  "windowHeight env = rect_bottom (GetClientRect env) - rect_top (GetClientRect env)"

definition present_ready :: "frame_env \<Rightarrow> gs_duplicator \<Rightarrow> bool" where
  "present_ready env d =
     (displayWindow d \<noteq> None \<and> displaySwapChain d \<noteq> None \<and>
      (case texture d of None \<Rightarrow> False | Some t \<Rightarrow> tex_texture t) \<and>
      IsWindowVisible env)"

text \<open>
  Whether a call of \<^verbatim>\<open>PresentFrame\<close> gets past its checks, the test for an empty client
  area and the resize, and so arrives at line 235.
\<close>

definition present_proceeds :: "frame_env \<Rightarrow> gs_duplicator \<Rightarrow> bool" where
  "present_proceeds env d =
     (present_ready env d \<and> windowWidth env \<noteq> 0 \<and> windowHeight env \<noteq> 0 \<and>
      (case displaySwapChain d of
         None \<Rightarrow> False
       | Some sc \<Rightarrow>
           (windowWidth env = target_width sc \<and> windowHeight env = target_height sc) \<or>
           \<not> isl (Resize env sc (windowWidth env) (windowHeight env))))"

text \<open>The events that draw, and the writes to \<^verbatim>\<open>curSwapChain\<close>.\<close>

fun drawing_event :: "event \<Rightarrow> bool" where
  "drawing_event (EvClearRenderTargetView rtv) = True"
| "drawing_event (EvOMSetRenderTargets rtv) = True"
| "drawing_event (EvCopySubresourceRegion dst src w h) = True"
| "drawing_event (EvSwapPresent sc interval) = True"
| "drawing_event e = False"

fun swap_chain_write :: "event \<Rightarrow> bool" where
  "swap_chain_write (EvSetCurSwapChain sc) = True"
| "swap_chain_write e = False"

text \<open>How often a trace polls the provider.\<close>

fun is_poll :: "event \<Rightarrow> bool" where
  "is_poll (EvAcquireNextFrame hr) = True"
| "is_poll e = False"

definition polls_made :: "event list \<Rightarrow> nat" where
  "polls_made evs = length (filter is_poll evs)"








subsection \<open>Example inputs\<close>

text \<open>
  Concrete values on which the theorems below are evaluated. The two format tables are
  examples of the parameters only.
\<close>

definition example_convert :: "dxgi_format \<Rightarrow> gs_color_format" where
  "example_convert f =
     (case f of
        DXGI_FORMAT_R16G16B16A16_FLOAT \<Rightarrow> GS_format_other 16
      | DXGI_FORMAT_B8G8R8A8_UNORM \<Rightarrow> GS_format_other 21
      | DXGI_FORMAT_other n \<Rightarrow> GS_format_other 0)"

definition example_generalize :: "gs_color_format \<Rightarrow> gs_color_format" where
  "example_generalize f = (if f = GS_format_other 21 then GS_BGRA else f)"

definition example_frame :: native_frame where
  "example_frame =
     \<lparr>frame_desc = \<lparr>Width = 1920, Height = 1080, Format = DXGI_FORMAT_B8G8R8A8_UNORM\<rparr>,
      frame_image = 43\<rparr>"

definition example_env :: frame_env where
  "example_env =
     \<lparr>AcquireNextFrame = 0,
      acquired_frame = example_frame,
      QueryInterface_Texture2D = 0,
      ConvertDXGITextureFormat = example_convert,
      gs_generalize_format = example_generalize,
      texture_create_succeeds = True,
      IsWindowVisible = True,
      GetClientRect = \<lparr>rect_left = 0, rect_top = 0, rect_right = 960, rect_bottom = 540\<rparr>,
      Resize = (\<lambda>sc w h. Inr (sc\<lparr>target_width := w, target_height := h\<rparr>))\<rparr>"

definition example_device :: gs_device where
  "example_device =
     \<lparr>curSwapChain = Some 7,
      viewport = \<lparr>rect_x = 5, rect_y = 5, rect_cx = 640, rect_cy = 480\<rparr>,
      context_renderTarget = Some 3,
      tex_serial = 2\<rparr>"

definition example_swap_chain :: gs_swap_chain where
  "example_swap_chain =
     \<lparr>sc_id = 1, target_width = 960, target_height = 540,
      target_renderTarget0 = Some 11, target_texture = 12, hWaitable = False\<rparr>"

definition example_texture :: gs_texture_2d where
  "example_texture =
     \<lparr>tex_id = 1, width = 1920, height = 1080, format = GS_BGRA,
      tex_texture = True, image = Some 42\<rparr>"

text \<open>A session as the constructor leaves it when no preview could be made.\<close>

definition example_session :: gs_duplicator where
  "example_session =
     \<lparr>duplicator = True, texture = None, hdr = False, color_space = GS_CS_SRGB,
      sdr_white_nits = 80, idx = 0, refs = 1, updated = False,
      displayWindow = None, displaySwapChain = None\<rparr>"

text \<open>A session as the constructor leaves it when the preview has been made.\<close>

definition example_new_session :: gs_duplicator where
  "example_new_session =
     example_session\<lparr>displayWindow := Some 1, displaySwapChain := Some example_swap_chain\<rparr>"

text \<open>
  A session with a preview and a cached frame at the start of a polling cycle: one frame
  has been captured and \<^verbatim>\<open>reset_duplicators\<close> has run since.
\<close>

definition example_preview_session :: gs_duplicator where
  "example_preview_session = example_new_session\<lparr>texture := Some example_texture\<rparr>"

text \<open>An output on which everything succeeds at index 0, and no output at any other index.\<close>

definition example_startup :: startup_env where
  "example_startup =
     \<lparr>EnumOutputs = (\<lambda>i. if i = 0 then 0 else DXGI_ERROR_NOT_FOUND),
      QueryInterface_Output5 = 0,
      DuplicateOutput1 = 0,
      GetDesc = 0,
      GetMonitorColorInfo = (False, 80),
      QueryInterface_Output1 = 0,
      DuplicateOutput = 0,
      color_space_default = GS_CS_SRGB,
      RegisterClassW = True,
      window_EnumOutputs = (\<lambda>i. if i = 0 then 0 else DXGI_ERROR_NOT_FOUND),
      window_GetDesc = 0,
      DesktopCoordinates = \<lparr>rect_left = 0, rect_top = 0, rect_right = 1920, rect_bottom = 1080\<rparr>,
      CreateWindowW = (\<lambda>w h. Some 1),
      new_gs_swap_chain =
        (\<lambda>hwnd w h. Inr \<lparr>sc_id = 1, target_width = w, target_height = h,
                          target_renderTarget0 = Some 11, target_texture = 12,
                          hWaitable = False\<rparr>)\<rparr>"

definition example_registry :: registry where
  "example_registry =
     \<lparr>instances = [], heap = (\<lambda>a. None), next_addr = 0, registered = False\<rparr>"

definition example_small_frame :: native_frame where
  "example_small_frame =
     \<lparr>frame_desc = \<lparr>Width = 1280, Height = 720, Format = DXGI_FORMAT_B8G8R8A8_UNORM\<rparr>,
      frame_image = 44\<rparr>"




section \<open>Properties\<close>

subsection \<open>Result codes\<close>

lemma FAILED_ACCESS_LOST: "FAILED DXGI_ERROR_ACCESS_LOST"
  by (simp add: FAILED_def DXGI_ERROR_ACCESS_LOST_def)

lemma FAILED_WAIT_TIMEOUT: "FAILED DXGI_ERROR_WAIT_TIMEOUT"
  by (simp add: FAILED_def DXGI_ERROR_WAIT_TIMEOUT_def)

lemma FAILED_NOT_FOUND: "FAILED DXGI_ERROR_NOT_FOUND"
  by (simp add: FAILED_def DXGI_ERROR_NOT_FOUND_def)

lemma SUCCEEDED_iff: "SUCCEEDED hr = (\<not> FAILED hr)"
  by (auto simp: SUCCEEDED_def FAILED_def)

lemma not_FAILED_0: "\<not> FAILED 0"
  by (simp add: FAILED_def)

lemma error_codes_distinct:
  "DXGI_ERROR_ACCESS_LOST \<noteq> DXGI_ERROR_WAIT_TIMEOUT"
  "DXGI_ERROR_ACCESS_LOST \<noteq> 0" "DXGI_ERROR_WAIT_TIMEOUT \<noteq> 0" "DXGI_ERROR_NOT_FOUND \<noteq> 0"
  by (simp_all add: DXGI_ERROR_ACCESS_LOST_def DXGI_ERROR_WAIT_TIMEOUT_def DXGI_ERROR_NOT_FOUND_def)

subsection \<open>Presenting and copying make no call to the provider\<close>

lemma PresentFrame_draw_no_provider:
  "filter provider_event (snd (PresentFrame_draw dev sc t)) = []"
  by (simp add: PresentFrame_draw_def Let_def split: option.splits)

lemma PresentFrame_sized_no_provider:
  "filter provider_event (snd (snd (PresentFrame_sized env dev d sc t))) = []"
  by (simp add: PresentFrame_sized_def Let_def case_prod_unfold PresentFrame_draw_no_provider
           split: sum.splits)

lemma PresentFrame_no_provider:
  "filter provider_event (snd (snd (PresentFrame env dev d))) = []"
  by (simp add: PresentFrame_def PresentFrame_sized_no_provider split: option.splits)

lemma copy_texture_no_provider:
  "filter provider_event (snd (snd (copy_texture env dev d tex))) = []"
  by (simp add: copy_texture_def Let_def gs_texture_create_def case_prod_unfold
           split: option.splits)

lemma no_provider_mem:
  "filter provider_event xs = [] \<Longrightarrow> provider_event e \<Longrightarrow> e \<notin> set xs"
  by (auto simp: filter_empty_conv)

lemma PresentFrame_no_acquire:
  "EvAcquireNextFrame hr \<notin> set (snd (snd (PresentFrame env dev d)))"
  by (rule no_provider_mem [OF PresentFrame_no_provider]) simp

lemma copy_texture_no_acquire:
  "EvAcquireNextFrame hr \<notin> set (snd (snd (copy_texture env dev d tex)))"
  by (rule no_provider_mem [OF copy_texture_no_provider]) simp

lemma filter_provider_subsumes:
  assumes "filter provider_event xs = []" and "\<And>e. P e \<Longrightarrow> provider_event e"
  shows "filter P xs = []"
  using assms by (auto simp: filter_empty_conv)

lemma is_poll_provider: "is_poll e \<Longrightarrow> provider_event e"
  by (cases e) simp_all

lemma polls_made_PresentFrame [simp]:
  "polls_made (snd (snd (PresentFrame env dev d))) = 0"
  unfolding polls_made_def
  by (simp add: filter_provider_subsumes [OF PresentFrame_no_provider] is_poll_provider)

lemma polls_made_copy_texture [simp]:
  "polls_made (snd (snd (copy_texture env dev d tex))) = 0"
  unfolding polls_made_def
  by (simp add: filter_provider_subsumes [OF copy_texture_no_provider] is_poll_provider)

lemma polls_made_simps [simp]:
  "polls_made [] = 0"
  "polls_made (e # evs) = (if is_poll e then 1 else 0) + polls_made evs"
  "polls_made (xs @ ys) = polls_made xs + polls_made ys"
  by (simp_all add: polls_made_def)

subsection \<open>The return value of an update\<close>

text \<open>
  Claim C1. \<^verbatim>\<open>gs_duplicator_update_frame\<close> returns false exactly when the capture handle
  of the session is absent, or the call polls the provider and the provider answers
  access lost. The call polls, once and first of all, exactly when the handle is there and
  the branch that presents the cached frame again is not taken; the answer it gets is
  \<open>AcquireNextFrame env\<close>. So in every other outcome (the cached frame presented again, a
  timeout, another failure of the poll, a frame acquired) the call returns true.
\<close>

theorem update_frame_false_iff:
  "(\<not> update_ret (gs_duplicator_update_frame env dev d)) =
     (\<not> duplicator d \<or>
      (polls_provider d \<and> AcquireNextFrame env = DXGI_ERROR_ACCESS_LOST)) \<and>
   polls_made (update_trace (gs_duplicator_update_frame env dev d)) =
     (if polls_provider d then 1 else 0) \<and>
   (polls_provider d \<longrightarrow>
      hd (update_trace (gs_duplicator_update_frame env dev d))
        = EvAcquireNextFrame (AcquireNextFrame env))"
proof (intro conjI impI)
  show "(\<not> update_ret (gs_duplicator_update_frame env dev d)) =
     (\<not> duplicator d \<or>
      (polls_provider d \<and> AcquireNextFrame env = DXGI_ERROR_ACCESS_LOST))"
    by (auto simp: gs_duplicator_update_frame_def update_ret_def polls_provider_def Let_def
          case_prod_unfold)
next
  show "polls_made (update_trace (gs_duplicator_update_frame env dev d)) =
     (if polls_provider d then 1 else 0)"
    by (auto simp: gs_duplicator_update_frame_def update_trace_def polls_provider_def Let_def
          case_prod_unfold)
next
  assume "polls_provider d"
  then show "hd (update_trace (gs_duplicator_update_frame env dev d))
        = EvAcquireNextFrame (AcquireNextFrame env)"
    by (auto simp: gs_duplicator_update_frame_def update_trace_def polls_provider_def Let_def
          case_prod_unfold)
qed

theorem update_frame_false_iff_witness:
  "polls_provider example_session \<and>
   \<not> update_ret (gs_duplicator_update_frame
        (example_env\<lparr>AcquireNextFrame := DXGI_ERROR_ACCESS_LOST\<rparr>) example_device example_session) \<and>
   update_ret (gs_duplicator_update_frame
        (example_env\<lparr>AcquireNextFrame := DXGI_ERROR_WAIT_TIMEOUT\<rparr>) example_device example_session) \<and>
   update_ret (gs_duplicator_update_frame
        (example_env\<lparr>AcquireNextFrame := 0x887A0001\<rparr>) example_device example_session) \<and>
   update_ret (gs_duplicator_update_frame example_env example_device example_session) \<and>
   \<not> update_ret (gs_duplicator_update_frame example_env example_device
        (example_session\<lparr>duplicator := False\<rparr>)) \<and>
   hd (update_trace (gs_duplicator_update_frame
        (example_env\<lparr>AcquireNextFrame := DXGI_ERROR_ACCESS_LOST\<rparr>) example_device example_session))
     = EvAcquireNextFrame DXGI_ERROR_ACCESS_LOST"
proof -
  let ?lost = "example_env\<lparr>AcquireNextFrame := DXGI_ERROR_ACCESS_LOST\<rparr>"
  let ?late = "example_env\<lparr>AcquireNextFrame := DXGI_ERROR_WAIT_TIMEOUT\<rparr>"
  let ?bad = "example_env\<lparr>AcquireNextFrame := 0x887A0001\<rparr>"
  have p: "polls_provider example_session" "duplicator example_session"
    by (simp_all add: polls_provider_def example_session_def)
  have a: "AcquireNextFrame ?late \<noteq> DXGI_ERROR_ACCESS_LOST"
          "AcquireNextFrame ?bad \<noteq> DXGI_ERROR_ACCESS_LOST"
          "AcquireNextFrame example_env \<noteq> DXGI_ERROR_ACCESS_LOST"
    by (simp_all add: example_env_def DXGI_ERROR_ACCESS_LOST_def DXGI_ERROR_WAIT_TIMEOUT_def)
  from p a
    update_frame_false_iff [of ?lost example_device example_session]
    update_frame_false_iff [of ?late example_device example_session]
    update_frame_false_iff [of ?bad example_device example_session]
    update_frame_false_iff [of example_env example_device example_session]
    update_frame_false_iff [of example_env example_device "example_session\<lparr>duplicator := False\<rparr>"]
  show ?thesis by simp
qed

subsection \<open>Acquired frames are released\<close>

lemma frame_acquired_provider: "frame_acquired e \<Longrightarrow> provider_event e"
  by (cases e) simp_all

lemma released_frames_PresentFrame [simp]:
  "released_frames (snd (snd (PresentFrame env dev d))) = 0"
  unfolding released_frames_def
  by (simp add: filter_provider_subsumes
        [OF PresentFrame_no_provider, where P = "\<lambda>e. e = EvReleaseFrame"])

lemma acquired_frames_PresentFrame [simp]:
  "acquired_frames (snd (snd (PresentFrame env dev d))) = 0"
  unfolding acquired_frames_def
  by (simp add: filter_provider_subsumes [OF PresentFrame_no_provider] frame_acquired_provider)

lemma released_frames_copy_texture [simp]:
  "released_frames (snd (snd (copy_texture env dev d tex))) = 0"
  unfolding released_frames_def
  by (simp add: filter_provider_subsumes
        [OF copy_texture_no_provider, where P = "\<lambda>e. e = EvReleaseFrame"])

lemma acquired_frames_copy_texture [simp]:
  "acquired_frames (snd (snd (copy_texture env dev d tex))) = 0"
  unfolding acquired_frames_def
  by (simp add: filter_provider_subsumes [OF copy_texture_no_provider] frame_acquired_provider)

lemma released_frames_simps [simp]:
  "released_frames [] = 0"
  "released_frames (e # evs) = (if e = EvReleaseFrame then 1 else 0) + released_frames evs"
  "released_frames (xs @ ys) = released_frames xs + released_frames ys"
  by (simp_all add: released_frames_def)

lemma acquired_frames_simps [simp]:
  "acquired_frames [] = 0"
  "acquired_frames (e # evs) = (if frame_acquired e then 1 else 0) + acquired_frames evs"
  "acquired_frames (xs @ ys) = acquired_frames xs + acquired_frames ys"
  by (simp_all add: acquired_frames_def)

text \<open>
  Claim C3. In the trace of every update call the frame handle is released as often as a
  frame is acquired, and a frame is acquired once when the call polls and the poll
  succeeds, and never otherwise: an acquired frame is released exactly once before the call
  returns. When the query for the texture interface of the acquired frame fails, the handle
  is still released once, the call returns true, and the session and the device are as
  before.
\<close>

theorem frame_released_once:
  "released_frames (update_trace (gs_duplicator_update_frame env dev d)) =
     acquired_frames (update_trace (gs_duplicator_update_frame env dev d)) \<and>
   acquired_frames (update_trace (gs_duplicator_update_frame env dev d)) =
     (if polls_provider d \<and> SUCCEEDED (AcquireNextFrame env) then 1 else 0) \<and>
   (polls_provider d \<and> SUCCEEDED (AcquireNextFrame env) \<and> FAILED (QueryInterface_Texture2D env) \<longrightarrow>
      released_frames (update_trace (gs_duplicator_update_frame env dev d)) = 1 \<and>
      update_ret (gs_duplicator_update_frame env dev d) \<and>
      update_dup (gs_duplicator_update_frame env dev d) = d \<and>
      update_dev (gs_duplicator_update_frame env dev d) = dev)"
  using FAILED_ACCESS_LOST FAILED_WAIT_TIMEOUT
  by (auto simp: gs_duplicator_update_frame_def update_ret_def update_trace_def update_dup_def
        update_dev_def Let_def case_prod_unfold polls_provider_def SUCCEEDED_iff)

theorem frame_released_once_witness:
  "polls_provider example_session \<and>
   SUCCEEDED (AcquireNextFrame (example_env\<lparr>QueryInterface_Texture2D := 0x80004002\<rparr>)) \<and>
   FAILED (QueryInterface_Texture2D (example_env\<lparr>QueryInterface_Texture2D := 0x80004002\<rparr>)) \<and>
   released_frames (update_trace (gs_duplicator_update_frame
      (example_env\<lparr>QueryInterface_Texture2D := 0x80004002\<rparr>) example_device example_session)) = 1 \<and>
   update_ret (gs_duplicator_update_frame
      (example_env\<lparr>QueryInterface_Texture2D := 0x80004002\<rparr>) example_device example_session) \<and>
   released_frames (update_trace (gs_duplicator_update_frame
      example_env example_device example_session)) = 1"
proof -
  let ?env = "example_env\<lparr>QueryInterface_Texture2D := 0x80004002\<rparr>"
  have p: "polls_provider example_session"
    by (simp add: polls_provider_def example_session_def)
  have a: "SUCCEEDED (AcquireNextFrame ?env)" "SUCCEEDED (AcquireNextFrame example_env)"
    by (simp_all add: example_env_def SUCCEEDED_def)
  have q: "FAILED (QueryInterface_Texture2D ?env)"
    by (simp add: FAILED_def)
  from p a q frame_released_once [of ?env example_device example_session]
    frame_released_once [of example_env example_device example_session]
  show ?thesis by simp
qed

subsection \<open>The example inputs arise from the functions of the file\<close>

lemma float_of_ulong_80: "float_of_ulong 80 = 80"
  by (simp add: float_of_ulong_def)

lemma float_of_ulong_rounds: "float_of_ulong 16777217 = 16777216"
  by (simp add: float_of_ulong_def)



lemma example_session_constructed:
  "gs_duplicator_new (example_startup\<lparr>RegisterClassW := False\<rparr>) False 0
     = (False, Inr example_session)"
  by (simp add: gs_duplicator_new_def Start_def CreateDisplayWindow_def get_monitor_def
        RegisterDisplayWindowClass_def example_startup_def example_session_def
        not_FAILED_0 SUCCEEDED_iff Let_def float_of_ulong_80)


subsection \<open>Presenting: client area and resize\<close>

lemma PresentFrame_draw_trace:
  "snd (PresentFrame_draw dev sc t) =
     [EvSetCurSwapChain (Some (sc_id sc)),
      EvSetViewport \<lparr>rect_x = 0, rect_y = 0, rect_cx = target_width sc, rect_cy = target_height sc\<rparr>] @
     (case target_renderTarget0 sc of
        None \<Rightarrow> [EvLog ''Missing render target view'']
      | Some rtv \<Rightarrow>
          [EvClearRenderTargetView rtv, EvOMSetRenderTargets rtv,
           EvCopySubresourceRegion (target_texture sc) (tex_id t) (width t) (height t),
           EvSwapPresent (sc_id sc) (if hWaitable sc then 1 else 0)]) @
     [EvSetCurSwapChain (curSwapChain dev)]"
  by (simp add: PresentFrame_draw_def Let_def split: option.splits)

lemma PresentFrame_draw_device:
  "fst (PresentFrame_draw dev sc t) =
     dev\<lparr>viewport := \<lparr>rect_x = 0, rect_y = 0, rect_cx = target_width sc, rect_cy = target_height sc\<rparr>,
         context_renderTarget :=
           (case target_renderTarget0 sc of None \<Rightarrow> context_renderTarget dev | Some rtv \<Rightarrow> Some rtv)\<rparr>"
  by (simp add: PresentFrame_draw_def Let_def split: option.splits)

lemma PresentFrame_draw_writes:
  "filter swap_chain_write (snd (PresentFrame_draw dev sc t)) =
     [EvSetCurSwapChain (Some (sc_id sc)), EvSetCurSwapChain (curSwapChain dev)]"
  by (simp add: PresentFrame_draw_def Let_def split: option.splits)

lemma PresentFrame_zero_area:
  "windowWidth env = 0 \<or> windowHeight env = 0 \<Longrightarrow> PresentFrame env dev d = (dev, d, [])"
  by (auto simp: PresentFrame_def PresentFrame_sized_def windowWidth_def windowHeight_def Let_def
           split: option.splits)

lemma PresentFrame_ready:
  assumes "present_ready env d" "displaySwapChain d = Some sc" "texture d = Some t"
  shows "PresentFrame env dev d = PresentFrame_sized env dev d sc t"
  using assms by (auto simp: PresentFrame_def present_ready_def split: option.splits)

lemma PresentFrame_not_ready:
  "\<not> present_ready env d \<Longrightarrow> PresentFrame env dev d = (dev, d, [])"
  by (auto simp: PresentFrame_def present_ready_def split: option.splits)

text \<open>
  Claim C9. A present call on a client area of zero width or zero height changes nothing
  and has an empty trace: no resize, no copy. When the call passes its checks, the client
  area is not empty and its size differs from the size of the surface, the first effect is
  the resize to the client area. If the resize fails, the failure is logged and the call
  ends with the device untouched and nothing drawn; if it succeeds, the drawing, with the
  copy, follows on the resized surface.
\<close>

theorem present_zero_area_and_resize:
  "(windowWidth env = 0 \<or> windowHeight env = 0 \<longrightarrow> PresentFrame env dev d = (dev, d, [])) \<and>
   (present_ready env d \<and> displaySwapChain d = Some sc \<and> texture d = Some t \<and>
    windowWidth env \<noteq> 0 \<and> windowHeight env \<noteq> 0 \<and>
    (windowWidth env \<noteq> target_width sc \<or> windowHeight env \<noteq> target_height sc) \<longrightarrow>
      (case Resize env sc (windowWidth env) (windowHeight env) of
         Inl (err, sc') \<Rightarrow>
           PresentFrame env dev d =
             (dev, d\<lparr>displaySwapChain := Some sc'\<rparr>,
              [EvResize (windowWidth env) (windowHeight env) GS_BGRA,
               EvLog ''Failed to resize swap chain''])
       | Inr sc' \<Rightarrow>
           PresentFrame env dev d =
             (fst (PresentFrame_draw dev sc' t), d\<lparr>displaySwapChain := Some sc'\<rparr>,
              EvResize (windowWidth env) (windowHeight env) GS_BGRA
                # snd (PresentFrame_draw dev sc' t))))"
proof (intro conjI impI)
  assume "windowWidth env = 0 \<or> windowHeight env = 0"
  then show "PresentFrame env dev d = (dev, d, [])" by (rule PresentFrame_zero_area)
next
  assume a: "present_ready env d \<and> displaySwapChain d = Some sc \<and> texture d = Some t \<and>
    windowWidth env \<noteq> 0 \<and> windowHeight env \<noteq> 0 \<and>
    (windowWidth env \<noteq> target_width sc \<or> windowHeight env \<noteq> target_height sc)"
  then have "PresentFrame env dev d = PresentFrame_sized env dev d sc t"
    by (simp add: PresentFrame_ready)
  with a show "case Resize env sc (windowWidth env) (windowHeight env) of
         Inl (err, sc') \<Rightarrow>
           PresentFrame env dev d =
             (dev, d\<lparr>displaySwapChain := Some sc'\<rparr>,
              [EvResize (windowWidth env) (windowHeight env) GS_BGRA,
               EvLog ''Failed to resize swap chain''])
       | Inr sc' \<Rightarrow>
           PresentFrame env dev d =
             (fst (PresentFrame_draw dev sc' t), d\<lparr>displaySwapChain := Some sc'\<rparr>,
              EvResize (windowWidth env) (windowHeight env) GS_BGRA
                # snd (PresentFrame_draw dev sc' t))"
    by (auto simp: PresentFrame_sized_def windowWidth_def windowHeight_def Let_def case_prod_unfold
             split: sum.splits)
qed

lemma example_preview_ready:
  "present_ready (example_env\<lparr>GetClientRect := r, Resize := f\<rparr>) example_preview_session"
  and example_preview_parts:
  "displaySwapChain example_preview_session = Some example_swap_chain"
  "texture example_preview_session = Some example_texture"
  by (simp_all add: present_ready_def example_env_def example_preview_session_def
        example_new_session_def example_session_def example_texture_def)

theorem present_zero_area_and_resize_witness:
  "PresentFrame
     (example_env\<lparr>GetClientRect := \<lparr>rect_left = 0, rect_top = 0, rect_right = 0, rect_bottom = 540\<rparr>\<rparr>)
     example_device example_preview_session
     = (example_device, example_preview_session, []) \<and>
   snd (snd (PresentFrame
     (example_env\<lparr>GetClientRect := \<lparr>rect_left = 0, rect_top = 0, rect_right = 800, rect_bottom = 600\<rparr>,
                  Resize := Resize example_env\<rparr>)
     example_device example_preview_session))
     = [EvResize 800 600 GS_BGRA,
        EvSetCurSwapChain (Some 1),
        EvSetViewport \<lparr>rect_x = 0, rect_y = 0, rect_cx = 800, rect_cy = 600\<rparr>,
        EvClearRenderTargetView 11, EvOMSetRenderTargets 11,
        EvCopySubresourceRegion 12 1 1920 1080, EvSwapPresent 1 0,
        EvSetCurSwapChain (Some 7)] \<and>
   PresentFrame
     (example_env\<lparr>GetClientRect := \<lparr>rect_left = 0, rect_top = 0, rect_right = 800, rect_bottom = 600\<rparr>,
                  Resize := (\<lambda>sc w h. Inl ((''Failed to resize swap buffers'', 0x887A0005), sc))\<rparr>)
     example_device example_preview_session
     = (example_device, example_preview_session,
        [EvResize 800 600 GS_BGRA, EvLog ''Failed to resize swap chain''])"
proof -
  let ?zero = "example_env\<lparr>GetClientRect :=
                 \<lparr>rect_left = 0, rect_top = 0, rect_right = 0, rect_bottom = 540\<rparr>\<rparr>"
  let ?r = "\<lparr>rect_left = 0, rect_top = 0, rect_right = 800, rect_bottom = 600\<rparr>"
  let ?fail = "\<lambda>(sc::gs_swap_chain) (w::32 word) (h::32 word).
                 Inl ((''Failed to resize swap buffers'', 0x887A0005 :: hresult), sc)
                 :: ((string \<times> hresult) \<times> gs_swap_chain) + gs_swap_chain"
  let ?good = "example_env\<lparr>GetClientRect := ?r, Resize := Resize example_env\<rparr>"
  let ?bad = "example_env\<lparr>GetClientRect := ?r, Resize := ?fail\<rparr>"
  have z: "windowWidth ?zero = 0"
    by (simp add: windowWidth_def)
  have s: "windowWidth ?good = 800" "windowHeight ?good = 600"
          "windowWidth ?bad = 800" "windowHeight ?bad = 600"
    by (simp_all add: windowWidth_def windowHeight_def)
  have sc: "target_width example_swap_chain = 960"
    by (simp add: example_swap_chain_def)
  have 1: "PresentFrame ?zero example_device example_preview_session
             = (example_device, example_preview_session, [])"
    using present_zero_area_and_resize [of ?zero example_device example_preview_session] z
    by simp
  have 2: "snd (snd (PresentFrame ?good example_device example_preview_session))
     = [EvResize 800 600 GS_BGRA,
        EvSetCurSwapChain (Some 1),
        EvSetViewport \<lparr>rect_x = 0, rect_y = 0, rect_cx = 800, rect_cy = 600\<rparr>,
        EvClearRenderTargetView 11, EvOMSetRenderTargets 11,
        EvCopySubresourceRegion 12 1 1920 1080, EvSwapPresent 1 0,
        EvSetCurSwapChain (Some 7)]"
    using present_zero_area_and_resize
            [of ?good example_device example_preview_session example_swap_chain example_texture]
          example_preview_ready [where r = ?r and f = "Resize example_env"] example_preview_parts s sc
    by (simp add: PresentFrame_draw_trace example_env_def example_swap_chain_def
          example_texture_def example_device_def)
  have 3: "PresentFrame ?bad example_device example_preview_session
     = (example_device, example_preview_session,
        [EvResize 800 600 GS_BGRA, EvLog ''Failed to resize swap chain''])"
    using present_zero_area_and_resize
            [of ?bad example_device example_preview_session example_swap_chain example_texture]
          example_preview_ready [where r = ?r and f = ?fail] example_preview_parts s sc
    by (simp add: example_preview_session_def example_new_session_def)
  from 1 2 3 show ?thesis by simp
qed

subsection \<open>Presenting: the device state\<close>

lemma PresentFrame_draw_drawing:
  "filter drawing_event (snd (PresentFrame_draw dev sc t)) =
     (case target_renderTarget0 sc of
        None \<Rightarrow> []
      | Some rtv \<Rightarrow>
          [EvClearRenderTargetView rtv, EvOMSetRenderTargets rtv,
           EvCopySubresourceRegion (target_texture sc) (tex_id t) (width t) (height t),
           EvSwapPresent (sc_id sc) (if hWaitable sc then 1 else 0)])"
  by (simp add: PresentFrame_draw_def Let_def split: option.splits)

lemma PresentFrame_stops:
  assumes "\<not> present_proceeds env d"
  shows "fst (PresentFrame env dev d) = dev \<and>
         filter swap_chain_write (snd (snd (PresentFrame env dev d))) = [] \<and>
         filter drawing_event (snd (snd (PresentFrame env dev d))) = []"
proof (cases "present_ready env d")
  case False
  then show ?thesis by (simp add: PresentFrame_not_ready)
next
  case True
  then obtain sc t where st: "displaySwapChain d = Some sc" "texture d = Some t"
    by (auto simp: present_ready_def split: option.splits)
  from assms True st show ?thesis
    unfolding PresentFrame_ready [OF True st]
    by (auto simp: PresentFrame_sized_def present_proceeds_def windowWidth_def windowHeight_def
          Let_def split: sum.splits)
qed

lemma PresentFrame_proceeds:
  assumes "present_proceeds env d"
  shows "\<exists>sc t. displaySwapChain (fst (snd (PresentFrame env dev d))) = Some sc \<and>
           fst (PresentFrame env dev d) = fst (PresentFrame_draw dev sc t) \<and>
           filter swap_chain_write (snd (snd (PresentFrame env dev d)))
             = filter swap_chain_write (snd (PresentFrame_draw dev sc t)) \<and>
           filter drawing_event (snd (snd (PresentFrame env dev d)))
             = filter drawing_event (snd (PresentFrame_draw dev sc t))"
proof -
  from assms have r: "present_ready env d"
    by (simp add: present_proceeds_def)
  then obtain sc t where st: "displaySwapChain d = Some sc" "texture d = Some t"
    by (auto simp: present_ready_def split: option.splits)
  from assms st show ?thesis
    unfolding PresentFrame_ready [OF r st]
    by (auto simp: PresentFrame_sized_def present_proceeds_def windowWidth_def windowHeight_def
          Let_def case_prod_unfold split: sum.splits)
qed

text \<open>
  Claim C8, as the code has it. On every exit path of a present call \<^verbatim>\<open>curSwapChain\<close> of
  the device has the value it had before the call. A call that ends at its checks, at an
  empty client area or at a failed resize does not touch the device and draws nothing.
  A call that gets past them writes its own swap chain to \<^verbatim>\<open>curSwapChain\<close> first and the
  saved value last, on both exits that follow. It overwrites the viewport with the size
  of the preview surface, and the viewport keeps that value on return, also on the exit
  for a missing render target view, where nothing is drawn and the bound render target is
  as before. When the surface has a render target view, the call binds it, draws, and
  leaves it bound on return.
\<close>

theorem present_restores_swap_chain:
  "curSwapChain (fst (PresentFrame env dev d)) = curSwapChain dev \<and>
   (\<not> present_proceeds env d \<longrightarrow>
      fst (PresentFrame env dev d) = dev \<and>
      filter swap_chain_write (snd (snd (PresentFrame env dev d))) = [] \<and>
      filter drawing_event (snd (snd (PresentFrame env dev d))) = []) \<and>
   (present_proceeds env d \<longrightarrow>
      (case displaySwapChain (fst (snd (PresentFrame env dev d))) of
         None \<Rightarrow> False
       | Some sc \<Rightarrow>
           filter swap_chain_write (snd (snd (PresentFrame env dev d))) =
             [EvSetCurSwapChain (Some (sc_id sc)), EvSetCurSwapChain (curSwapChain dev)] \<and>
           viewport (fst (PresentFrame env dev d)) =
             \<lparr>rect_x = 0, rect_y = 0, rect_cx = target_width sc, rect_cy = target_height sc\<rparr> \<and>
           (case target_renderTarget0 sc of
              None \<Rightarrow>
                context_renderTarget (fst (PresentFrame env dev d)) = context_renderTarget dev \<and>
                filter drawing_event (snd (snd (PresentFrame env dev d))) = []
            | Some rtv \<Rightarrow>
                context_renderTarget (fst (PresentFrame env dev d)) = Some rtv \<and>
                EvOMSetRenderTargets rtv
                  \<in> set (filter drawing_event (snd (snd (PresentFrame env dev d)))))))"
proof (cases "present_proceeds env d")
  case False
  with PresentFrame_stops [OF False, of dev] show ?thesis by simp
next
  case True
  from PresentFrame_proceeds [OF True, of dev] obtain sc t where
    sc: "displaySwapChain (fst (snd (PresentFrame env dev d))) = Some sc"
    and dev: "fst (PresentFrame env dev d) = fst (PresentFrame_draw dev sc t)"
    and w: "filter swap_chain_write (snd (snd (PresentFrame env dev d)))
             = filter swap_chain_write (snd (PresentFrame_draw dev sc t))"
    and dr: "filter drawing_event (snd (snd (PresentFrame env dev d)))
             = filter drawing_event (snd (PresentFrame_draw dev sc t))"
    by blast
  show ?thesis
    unfolding sc dev w dr PresentFrame_draw_device PresentFrame_draw_writes
      PresentFrame_draw_drawing
    using True by (simp split: option.splits)
qed


theorem present_restores_swap_chain_witness:
  "present_proceeds example_env example_preview_session \<and>
   curSwapChain example_device = Some 7 \<and>
   curSwapChain (fst (PresentFrame example_env example_device example_preview_session)) = Some 7 \<and>
   filter swap_chain_write (snd (snd (PresentFrame example_env example_device example_preview_session)))
     = [EvSetCurSwapChain (Some 1), EvSetCurSwapChain (Some 7)] \<and>
   present_proceeds example_env
     (example_preview_session\<lparr>displaySwapChain :=
        Some (example_swap_chain\<lparr>target_renderTarget0 := None\<rparr>)\<rparr>) \<and>
   curSwapChain (fst (PresentFrame example_env example_device
     (example_preview_session\<lparr>displaySwapChain :=
        Some (example_swap_chain\<lparr>target_renderTarget0 := None\<rparr>)\<rparr>))) = Some 7 \<and>
   viewport (fst (PresentFrame example_env example_device
     (example_preview_session\<lparr>displaySwapChain :=
        Some (example_swap_chain\<lparr>target_renderTarget0 := None\<rparr>)\<rparr>)))
     = \<lparr>rect_x = 0, rect_y = 0, rect_cx = 960, rect_cy = 540\<rparr> \<and>
   context_renderTarget (fst (PresentFrame example_env example_device
     (example_preview_session\<lparr>displaySwapChain :=
        Some (example_swap_chain\<lparr>target_renderTarget0 := None\<rparr>)\<rparr>))) = Some 3 \<and>
   filter drawing_event (snd (snd (PresentFrame example_env example_device
     (example_preview_session\<lparr>displaySwapChain :=
        Some (example_swap_chain\<lparr>target_renderTarget0 := None\<rparr>)\<rparr>)))) = []"
proof -
  let ?d = "example_preview_session\<lparr>displaySwapChain :=
              Some (example_swap_chain\<lparr>target_renderTarget0 := None\<rparr>)\<rparr>"
  have p: "present_proceeds example_env example_preview_session"
          "present_proceeds example_env ?d"
    by (simp_all add: present_proceeds_def present_ready_def windowWidth_def windowHeight_def
          example_env_def example_preview_session_def example_new_session_def
          example_session_def example_swap_chain_def example_texture_def)
  have sc: "displaySwapChain (fst (snd (PresentFrame example_env example_device
              example_preview_session))) = Some example_swap_chain"
           "displaySwapChain (fst (snd (PresentFrame example_env example_device ?d)))
              = Some (example_swap_chain\<lparr>target_renderTarget0 := None\<rparr>)"
    by (simp_all add: PresentFrame_def PresentFrame_sized_def Let_def case_prod_unfold
          example_env_def example_preview_session_def example_new_session_def
          example_session_def example_swap_chain_def example_texture_def)
  have c: "curSwapChain example_device = Some 7" "context_renderTarget example_device = Some 3"
    by (simp_all add: example_device_def)
  from present_restores_swap_chain [of example_env example_device example_preview_session]
       present_restores_swap_chain [of example_env example_device ?d] p c
  show ?thesis
    by (simp add: sc) (simp add: example_swap_chain_def)
qed

text \<open>
  The claim as the spec words it fails: after a present call that draws, the viewport and
  the bound render target are those of the preview, not the ones from before the call.
\<close>

theorem present_overwrites_viewport:
  "viewport (fst (PresentFrame example_env example_device example_preview_session))
     \<noteq> viewport example_device \<and>
   viewport example_device = \<lparr>rect_x = 5, rect_y = 5, rect_cx = 640, rect_cy = 480\<rparr> \<and>
   viewport (fst (PresentFrame example_env example_device example_preview_session))
     = \<lparr>rect_x = 0, rect_y = 0, rect_cx = 960, rect_cy = 540\<rparr> \<and>
   context_renderTarget example_device = Some 3 \<and>
   context_renderTarget (fst (PresentFrame example_env example_device example_preview_session))
     = Some 11"
  by (simp add: PresentFrame_def PresentFrame_sized_def Let_def case_prod_unfold
        PresentFrame_draw_device example_env_def example_device_def
        example_preview_session_def example_new_session_def example_session_def
        example_swap_chain_def example_texture_def)

subsection \<open>Presenting the cached frame again\<close>

text \<open>
  The branch of lines 453 to 458. An update call on a session with a capture handle, a
  cached texture, a window, a swap chain and the fresh-frame flag set is a call of
  \<^verbatim>\<open>PresentFrame\<close> followed by the return of true, and does not poll the provider.
  Without a window or without a swap chain, and also whenever the flag is clear, the call
  polls the provider once, first of all.
\<close>

lemma update_presents_cached_frame:
  "(duplicator d \<and> displayWindow d \<noteq> None \<and> displaySwapChain d \<noteq> None \<and>
    texture d \<noteq> None \<and> updated d \<longrightarrow>
      gs_duplicator_update_frame env dev d =
        (True, fst (PresentFrame env dev d), fst (snd (PresentFrame env dev d)),
         snd (snd (PresentFrame env dev d))) \<and>
      polls_made (update_trace (gs_duplicator_update_frame env dev d)) = 0) \<and>
   (duplicator d \<and> (displayWindow d = None \<or> displaySwapChain d = None \<or> \<not> updated d) \<longrightarrow>
      polls_made (update_trace (gs_duplicator_update_frame env dev d)) = 1 \<and>
      hd (update_trace (gs_duplicator_update_frame env dev d))
        = EvAcquireNextFrame (AcquireNextFrame env))"
proof (intro conjI impI)
  assume again: "duplicator d \<and> displayWindow d \<noteq> None \<and> displaySwapChain d \<noteq> None \<and>
    texture d \<noteq> None \<and> updated d"
  then show present: "gs_duplicator_update_frame env dev d =
        (True, fst (PresentFrame env dev d), fst (snd (PresentFrame env dev d)),
         snd (snd (PresentFrame env dev d)))"
    by (simp add: gs_duplicator_update_frame_def case_prod_unfold)
  show "polls_made (update_trace (gs_duplicator_update_frame env dev d)) = 0"
    unfolding present by (simp add: update_trace_def)
next
  assume poll: "duplicator d \<and> (displayWindow d = None \<or> displaySwapChain d = None \<or> \<not> updated d)"
  then have p: "polls_provider d"
    by (auto simp: polls_provider_def)
  show "polls_made (update_trace (gs_duplicator_update_frame env dev d)) = 1"
    using p
    by (auto simp: gs_duplicator_update_frame_def polls_provider_def update_trace_def Let_def
          case_prod_unfold)
  show "hd (update_trace (gs_duplicator_update_frame env dev d))
          = EvAcquireNextFrame (AcquireNextFrame env)"
    using p
    by (auto simp: gs_duplicator_update_frame_def polls_provider_def update_trace_def Let_def
          case_prod_unfold)
qed

lemma update_presents_cached_frame_example:
  "polls_made (update_trace (gs_duplicator_update_frame example_env example_device
      (example_preview_session\<lparr>updated := True\<rparr>))) = 0 \<and>
   update_ret (gs_duplicator_update_frame example_env example_device
      (example_preview_session\<lparr>updated := True\<rparr>)) \<and>
   polls_made (update_trace (gs_duplicator_update_frame example_env example_device
      example_session)) = 1"
  using update_presents_cached_frame
          [of "example_preview_session\<lparr>updated := True\<rparr>" example_env example_device]
        update_presents_cached_frame [of example_session example_env example_device]
  by (simp add: example_preview_session_def example_new_session_def example_session_def
        update_ret_def update_trace_def)


subsection \<open>The texture cache\<close>

lemma copy_texture_reuse:
  assumes "texture d = Some t"
    and "\<not> needs_new_texture (Some t) (frame_desc tex)
           (gs_generalize_format env (ConvertDXGITextureFormat env (Format (frame_desc tex))))"
  shows "copy_texture env dev d tex =
           (dev, d\<lparr>texture := Some (t\<lparr>image := Some (frame_image tex)\<rparr>)\<rparr>,
            [EvCopyResource (tex_id t) (frame_image tex)])"
  using assms by (simp add: copy_texture_def Let_def)

lemma copy_texture_recreate:
  assumes "needs_new_texture (texture d) (frame_desc tex)
             (gs_generalize_format env (ConvertDXGITextureFormat env (Format (frame_desc tex))))"
    and "texture_create_succeeds env"
  shows "copy_texture env dev d tex =
           (dev\<lparr>tex_serial := Suc (tex_serial dev)\<rparr>,
            d\<lparr>texture := Some \<lparr>tex_id = tex_serial dev,
                               width = Width (frame_desc tex),
                               height = Height (frame_desc tex),
                               format = gs_generalize_format env
                                          (ConvertDXGITextureFormat env (Format (frame_desc tex))),
                               tex_texture = True,
                               image = Some (frame_image tex)\<rparr>,
              color_space :=
                (if hdr d then GS_CS_709_SCRGB
                 else if Format (frame_desc tex) = DXGI_FORMAT_R16G16B16A16_FLOAT
                 then GS_CS_SRGB_16F else GS_CS_SRGB)\<rparr>,
            (case texture d of None \<Rightarrow> [] | Some old \<Rightarrow> [EvDeleteTexture (tex_id old)]) @
            [EvTextureCreate (Width (frame_desc tex)) (Height (frame_desc tex))
               (gs_generalize_format env (ConvertDXGITextureFormat env (Format (frame_desc tex)))),
             EvCopyResource (tex_serial dev) (frame_image tex)])"
  using assms by (simp add: copy_texture_def gs_texture_create_def Let_def)

lemma copy_texture_create_fails:
  assumes "needs_new_texture (texture d) (frame_desc tex)
             (gs_generalize_format env (ConvertDXGITextureFormat env (Format (frame_desc tex))))"
    and "\<not> texture_create_succeeds env"
  shows "copy_texture env dev d tex =
           (dev,
            d\<lparr>texture := None,
              color_space :=
                (if hdr d then GS_CS_709_SCRGB
                 else if Format (frame_desc tex) = DXGI_FORMAT_R16G16B16A16_FLOAT
                 then GS_CS_SRGB_16F else GS_CS_SRGB)\<rparr>,
            (case texture d of None \<Rightarrow> [] | Some old \<Rightarrow> [EvDeleteTexture (tex_id old)]) @
            [EvTextureCreate (Width (frame_desc tex)) (Height (frame_desc tex))
               (gs_generalize_format env (ConvertDXGITextureFormat env (Format (frame_desc tex))))])"
  using assms by (simp add: copy_texture_def gs_texture_create_def Let_def)

text \<open>
  Claim C4, as the code has it. Let the session hold a cached texture. If the width, the
  height and the generalized format of the incoming frame equal those of the cached
  texture, the same texture object is kept and the frame is copied into it with one
  full-resource copy. If one of the three differs, the cached texture is destroyed and a
  new one is requested: when the creation succeeds the session holds a texture with a new
  identity and the size and generalized format of the frame, and the frame is copied into
  it; when the creation fails the session holds no texture and nothing is copied. The
  cached texture is destroyed if and only if one of the three differs.
\<close>

theorem copy_texture_recreates_iff_changed:
  assumes "texture d = Some t" and "tex_id t < tex_serial dev"
  shows
    "(EvDeleteTexture (tex_id t) \<in> set (snd (snd (copy_texture env dev d tex)))) =
       (width t \<noteq> Width (frame_desc tex) \<or> height t \<noteq> Height (frame_desc tex) \<or>
        format t \<noteq> gs_generalize_format env (ConvertDXGITextureFormat env (Format (frame_desc tex)))) \<and>
     (width t = Width (frame_desc tex) \<and> height t = Height (frame_desc tex) \<and>
      format t = gs_generalize_format env (ConvertDXGITextureFormat env (Format (frame_desc tex))) \<longrightarrow>
        texture (fst (snd (copy_texture env dev d tex)))
          = Some (t\<lparr>image := Some (frame_image tex)\<rparr>) \<and>
        snd (snd (copy_texture env dev d tex)) = [EvCopyResource (tex_id t) (frame_image tex)]) \<and>
     ((width t \<noteq> Width (frame_desc tex) \<or> height t \<noteq> Height (frame_desc tex) \<or>
       format t \<noteq> gs_generalize_format env (ConvertDXGITextureFormat env (Format (frame_desc tex)))) \<longrightarrow>
        (if texture_create_succeeds env
         then (case texture (fst (snd (copy_texture env dev d tex))) of
                 None \<Rightarrow> False
               | Some t' \<Rightarrow>
                   tex_id t' \<noteq> tex_id t \<and>
                   width t' = Width (frame_desc tex) \<and> height t' = Height (frame_desc tex) \<and>
                   format t' = gs_generalize_format env
                                 (ConvertDXGITextureFormat env (Format (frame_desc tex))) \<and>
                   image t' = Some (frame_image tex) \<and>
                   snd (snd (copy_texture env dev d tex)) =
                     [EvDeleteTexture (tex_id t),
                      EvTextureCreate (width t') (height t') (format t'),
                      EvCopyResource (tex_id t') (frame_image tex)])
         else texture (fst (snd (copy_texture env dev d tex))) = None \<and>
              snd (snd (copy_texture env dev d tex)) =
                [EvDeleteTexture (tex_id t),
                 EvTextureCreate (Width (frame_desc tex)) (Height (frame_desc tex))
                   (gs_generalize_format env
                      (ConvertDXGITextureFormat env (Format (frame_desc tex))))]))"
proof -
  let ?g = "gs_generalize_format env (ConvertDXGITextureFormat env (Format (frame_desc tex)))"
  show ?thesis
  proof (cases "needs_new_texture (Some t) (frame_desc tex) ?g")
    case False
    then have same: "width t = Width (frame_desc tex)" "height t = Height (frame_desc tex)"
      "format t = ?g"
      by (simp_all add: needs_new_texture_def)
    from copy_texture_reuse [OF assms(1) False, of dev] same show ?thesis
      by simp
  next
    case True
    then have differs: "width t \<noteq> Width (frame_desc tex) \<or> height t \<noteq> Height (frame_desc tex) \<or>
        format t \<noteq> ?g"
      by (simp add: needs_new_texture_def)
    from True assms(1) have need: "needs_new_texture (texture d) (frame_desc tex) ?g"
      by simp
    show ?thesis
    proof (cases "texture_create_succeeds env")
      case True
      from copy_texture_recreate [OF need True, of dev] differs assms True show ?thesis
        by auto
    next
      case False
      from copy_texture_create_fails [OF need False, of dev] differs assms False show ?thesis
        by auto
    qed
  qed
qed

theorem copy_texture_recreates_iff_changed_witness:
  "texture example_preview_session = Some example_texture \<and>
   tex_id example_texture < tex_serial example_device \<and>
   EvDeleteTexture 1 \<notin> set (snd (snd (copy_texture example_env example_device
      example_preview_session example_frame))) \<and>
   texture (fst (snd (copy_texture example_env example_device
      example_preview_session example_frame)))
     = Some (example_texture\<lparr>image := Some 43\<rparr>) \<and>
   EvDeleteTexture 1 \<in> set (snd (snd (copy_texture example_env example_device
      example_preview_session example_small_frame))) \<and>
   texture (fst (snd (copy_texture example_env example_device
      example_preview_session example_small_frame)))
     = Some \<lparr>tex_id = 2, width = 1280, height = 720, format = GS_BGRA,
             tex_texture = True, image = Some 44\<rparr>"
proof -
  have t: "texture example_preview_session = Some example_texture"
    by (simp add: example_preview_session_def)
  have i: "tex_id example_texture < tex_serial example_device"
    by (simp add: example_texture_def example_device_def)
  have g: "gs_generalize_format example_env
             (ConvertDXGITextureFormat example_env DXGI_FORMAT_B8G8R8A8_UNORM) = GS_BGRA"
    by (simp add: example_env_def example_convert_def example_generalize_def)
  have same: "EvDeleteTexture 1 \<notin> set (snd (snd (copy_texture example_env example_device
      example_preview_session example_frame)))"
    using copy_texture_recreates_iff_changed [OF t i, of example_env example_frame] g
    by (simp add: example_frame_def example_texture_def)
  have differs: "EvDeleteTexture 1 \<in> set (snd (snd (copy_texture example_env example_device
      example_preview_session example_small_frame)))"
    using copy_texture_recreates_iff_changed [OF t i, of example_env example_small_frame] g
    by (simp add: example_small_frame_def example_texture_def)
  have kept: "texture (fst (snd (copy_texture example_env example_device
      example_preview_session example_frame))) = Some (example_texture\<lparr>image := Some 43\<rparr>)"
    using g by (simp add: copy_texture_def needs_new_texture_def Let_def t example_frame_def
          example_texture_def)
  have new: "texture (fst (snd (copy_texture example_env example_device
      example_preview_session example_small_frame)))
     = Some \<lparr>tex_id = 2, width = 1280, height = 720, format = GS_BGRA,
             tex_texture = True, image = Some 44\<rparr>"
    using g by (simp add: copy_texture_def needs_new_texture_def gs_texture_create_def Let_def t
          example_small_frame_def example_texture_def example_env_def example_device_def)
  from t i same differs kept new show ?thesis by simp
qed

text \<open>
  The claim as the spec words it fails when the creation of the new texture fails: the
  size differs, the cached texture is destroyed, and no texture takes its place.
\<close>

theorem copy_texture_create_failure:
  "texture example_preview_session = Some example_texture \<and>
   width example_texture \<noteq> Width (frame_desc example_small_frame) \<and>
   copy_texture (example_env\<lparr>texture_create_succeeds := False\<rparr>) example_device
       example_preview_session example_small_frame
     = (example_device, example_preview_session\<lparr>texture := None\<rparr>,
        [EvDeleteTexture 1, EvTextureCreate 1280 720 GS_BGRA])"
  by (simp add: copy_texture_def needs_new_texture_def gs_texture_create_def Let_def
        example_preview_session_def example_new_session_def example_session_def
        example_small_frame_def example_texture_def example_env_def example_convert_def
        example_generalize_def)

subsection \<open>The fresh-frame flag and the cached texture\<close>

lemma PresentFrame_session:
  "fst (snd (PresentFrame env dev d)) = d \<or>
   (\<exists>sc. fst (snd (PresentFrame env dev d)) = d\<lparr>displaySwapChain := Some sc\<rparr>)"
  by (auto simp: PresentFrame_def PresentFrame_sized_def Let_def case_prod_unfold
           split: option.splits sum.splits)

lemma PresentFrame_keeps [simp]:
  "texture (fst (snd (PresentFrame env dev d))) = texture d"
  "updated (fst (snd (PresentFrame env dev d))) = updated d"
  "hdr (fst (snd (PresentFrame env dev d))) = hdr d"
  "color_space (fst (snd (PresentFrame env dev d))) = color_space d"
  "duplicator (fst (snd (PresentFrame env dev d))) = duplicator d"
  "refs (fst (snd (PresentFrame env dev d))) = refs d"
  "idx (fst (snd (PresentFrame env dev d))) = idx d"
  using PresentFrame_session [of env dev d] by auto

lemma copy_texture_texture:
  "texture (fst (snd (copy_texture env dev d tex))) =
     (let g = gs_generalize_format env (ConvertDXGITextureFormat env (Format (frame_desc tex)))
      in if needs_new_texture (texture d) (frame_desc tex) g
         then (if texture_create_succeeds env
               then Some \<lparr>tex_id = tex_serial dev, width = Width (frame_desc tex),
                          height = Height (frame_desc tex), format = g,
                          tex_texture = True, image = Some (frame_image tex)\<rparr>
               else None)
         else map_option (\<lambda>t. t\<lparr>image := Some (frame_image tex)\<rparr>) (texture d))"
  by (auto simp: copy_texture_def gs_texture_create_def needs_new_texture_def Let_def
           split: option.splits)

lemma copy_texture_keeps [simp]:
  "updated (fst (snd (copy_texture env dev d tex))) = updated d"
  "hdr (fst (snd (copy_texture env dev d tex))) = hdr d"
  "displayWindow (fst (snd (copy_texture env dev d tex))) = displayWindow d"
  "displaySwapChain (fst (snd (copy_texture env dev d tex))) = displaySwapChain d"
  "duplicator (fst (snd (copy_texture env dev d tex))) = duplicator d"
  by (simp_all add: copy_texture_def gs_texture_create_def Let_def case_prod_unfold
        split: option.splits)

lemma update_dup_cases:
  "update_dup (gs_duplicator_update_frame env dev d) =
     (if polls_provider d \<and> SUCCEEDED (AcquireNextFrame env) \<and>
         SUCCEEDED (QueryInterface_Texture2D env)
      then (let d2 = (fst (snd (copy_texture env dev d (acquired_frame env))))\<lparr>updated := True\<rparr>
            in if displayWindow d2 \<noteq> None \<and> displaySwapChain d2 \<noteq> None
               then fst (snd (PresentFrame env (fst (copy_texture env dev d (acquired_frame env))) d2))
               else d2)
      else if duplicator d \<and> \<not> polls_provider d then fst (snd (PresentFrame env dev d))
      else d)"
  using FAILED_ACCESS_LOST FAILED_WAIT_TIMEOUT
  by (auto simp: gs_duplicator_update_frame_def update_dup_def polls_provider_def SUCCEEDED_iff
        Let_def case_prod_unfold)

text \<open>
  Claim C10, as the code has it. An update call that acquires a frame and obtains its
  texture interface sets the fresh-frame flag in every case. Afterwards the cached texture
  is absent if and only if a new texture was needed and its creation failed; when it is
  present it holds the contents of that frame and has the width, height and generalized
  format of the frame. Every other update call leaves both the flag and the cached
  texture as they were.
\<close>

theorem update_flag_and_texture:
  "(polls_provider d \<and> SUCCEEDED (AcquireNextFrame env) \<and>
    SUCCEEDED (QueryInterface_Texture2D env) \<longrightarrow>
      updated (update_dup (gs_duplicator_update_frame env dev d)) \<and>
      (texture (update_dup (gs_duplicator_update_frame env dev d)) = None) =
        (needs_new_texture (texture d) (frame_desc (acquired_frame env))
           (gs_generalize_format env
              (ConvertDXGITextureFormat env (Format (frame_desc (acquired_frame env))))) \<and>
         \<not> texture_create_succeeds env) \<and>
      (case texture (update_dup (gs_duplicator_update_frame env dev d)) of
         None \<Rightarrow> True
       | Some t \<Rightarrow>
           image t = Some (frame_image (acquired_frame env)) \<and>
           width t = Width (frame_desc (acquired_frame env)) \<and>
           height t = Height (frame_desc (acquired_frame env)) \<and>
           format t = gs_generalize_format env
                        (ConvertDXGITextureFormat env (Format (frame_desc (acquired_frame env)))))) \<and>
   (\<not> (polls_provider d \<and> SUCCEEDED (AcquireNextFrame env) \<and>
        SUCCEEDED (QueryInterface_Texture2D env)) \<longrightarrow>
      updated (update_dup (gs_duplicator_update_frame env dev d)) = updated d \<and>
      texture (update_dup (gs_duplicator_update_frame env dev d)) = texture d)"
  by (auto simp: update_dup_cases copy_texture_texture needs_new_texture_def Let_def
           split: option.splits)

theorem update_flag_and_texture_witness:
  "polls_provider example_preview_session \<and>
   SUCCEEDED (AcquireNextFrame example_env) \<and>
   SUCCEEDED (QueryInterface_Texture2D example_env) \<and>
   updated (update_dup (gs_duplicator_update_frame example_env example_device
      example_preview_session)) \<and>
   texture (update_dup (gs_duplicator_update_frame example_env example_device
      example_preview_session)) = Some (example_texture\<lparr>image := Some 43\<rparr>) \<and>
   texture (update_dup (gs_duplicator_update_frame
      (example_env\<lparr>AcquireNextFrame := DXGI_ERROR_WAIT_TIMEOUT\<rparr>) example_device
      example_preview_session)) = Some example_texture \<and>
   texture (update_dup (gs_duplicator_update_frame
      (example_env\<lparr>texture_create_succeeds := False\<rparr>) example_device
      example_session)) = None"
proof -
  let ?fail = "example_env\<lparr>texture_create_succeeds := False\<rparr>"
  have pf: "polls_provider example_session"
    by (simp add: polls_provider_def example_session_def)
  have sf: "SUCCEEDED (AcquireNextFrame ?fail)" "SUCCEEDED (QueryInterface_Texture2D ?fail)"
    "\<not> texture_create_succeeds ?fail" "texture example_session = None"
    by (simp_all add: SUCCEEDED_def example_env_def example_session_def)
  have 4: "texture (update_dup (gs_duplicator_update_frame ?fail example_device
      example_session)) = None"
    using update_flag_and_texture [of example_session ?fail example_device] pf sf
    by (simp add: needs_new_texture_def)
  let ?late = "example_env\<lparr>AcquireNextFrame := DXGI_ERROR_WAIT_TIMEOUT\<rparr>"
  have p: "polls_provider example_preview_session"
    by (simp add: polls_provider_def example_preview_session_def example_new_session_def
          example_session_def)
  have s: "SUCCEEDED (AcquireNextFrame example_env)"
          "SUCCEEDED (QueryInterface_Texture2D example_env)"
    by (simp_all add: SUCCEEDED_def example_env_def)
  have n: "\<not> SUCCEEDED (AcquireNextFrame ?late)"
    using FAILED_WAIT_TIMEOUT by (simp add: SUCCEEDED_iff)
  have t: "texture example_preview_session = Some example_texture"
    by (simp add: example_preview_session_def)
  have 1: "updated (update_dup (gs_duplicator_update_frame example_env example_device
      example_preview_session))"
    using update_flag_and_texture [of example_preview_session example_env example_device] p s
    by simp
  have 2: "texture (update_dup (gs_duplicator_update_frame example_env example_device
      example_preview_session)) = Some (example_texture\<lparr>image := Some 43\<rparr>)"
    using p s t
    by (simp add: update_dup_cases copy_texture_texture needs_new_texture_def Let_def
          example_env_def example_frame_def example_texture_def example_convert_def
          example_generalize_def)
  have 3: "texture (update_dup (gs_duplicator_update_frame ?late example_device
      example_preview_session)) = Some example_texture"
    using update_flag_and_texture [of example_preview_session ?late example_device] n t
    by simp
  from p s 1 2 3 4 show ?thesis by simp
qed

text \<open>
  The claim as the spec words it fails when the creation of the texture fails: the call
  returns true with the fresh-frame flag set and no cached texture.
\<close>

theorem update_sets_flag_without_texture:
  "update_ret (gs_duplicator_update_frame (example_env\<lparr>texture_create_succeeds := False\<rparr>)
      example_device example_session) \<and>
   updated (update_dup (gs_duplicator_update_frame
      (example_env\<lparr>texture_create_succeeds := False\<rparr>) example_device example_session)) \<and>
   texture (update_dup (gs_duplicator_update_frame
      (example_env\<lparr>texture_create_succeeds := False\<rparr>) example_device example_session)) = None"
  by (simp add: gs_duplicator_update_frame_def copy_texture_def gs_texture_create_def
        needs_new_texture_def update_ret_def update_dup_def Let_def not_FAILED_0
        error_codes_distinct [symmetric] example_env_def example_session_def)

subsection \<open>The color space\<close>















subsection \<open>The registry\<close>




lemma invalid_index_fails:
  "EnumOutputs senv monitor_idx = DXGI_ERROR_NOT_FOUND \<Longrightarrow>
   gs_duplicator_new senv reg monitor_idx = (reg, Inl (Thrown ''Invalid monitor index''))"
  by (simp add: gs_duplicator_new_def Start_def get_monitor_def FAILED_NOT_FOUND)

lemma duplication_error_fails:
  assumes "\<not> FAILED (EnumOutputs senv monitor_idx)"
  shows "SUCCEEDED (QueryInterface_Output5 senv) \<Longrightarrow> FAILED (DuplicateOutput1 senv) \<Longrightarrow>
         gs_duplicator_new senv reg monitor_idx
           = (reg, Inl (HRError ''Failed to DuplicateOutput1'' (DuplicateOutput1 senv)))"
    and "\<not> SUCCEEDED (QueryInterface_Output5 senv) \<Longrightarrow> \<not> FAILED (QueryInterface_Output1 senv) \<Longrightarrow>
         FAILED (DuplicateOutput senv) \<Longrightarrow>
         gs_duplicator_new senv reg monitor_idx
           = (reg, Inl (HRError ''Failed to DuplicateOutput'' (DuplicateOutput senv)))"
  using assms by (simp_all add: gs_duplicator_new_def Start_def get_monitor_def)

text \<open>
  Claim C6. When no session is registered for a monitor index and the construction of one
  fails, with either kind of thrown value, \<^verbatim>\<open>device_duplicator_create\<close> returns null, and
  the map \<^verbatim>\<open>instances\<close>, the sessions alive and the next address are as before: no entry
  for the index is inserted.
\<close>

theorem create_failure_leaves_registry:
  assumes "map_of (instances w) monitor_idx = None"
    and "snd (gs_duplicator_new senv (registered w) monitor_idx) = Inl e"
  shows "fst (device_duplicator_create senv monitor_idx w) = None \<and>
         instances (snd (device_duplicator_create senv monitor_idx w)) = instances w \<and>
         heap (snd (device_duplicator_create senv monitor_idx w)) = heap w \<and>
         next_addr (snd (device_duplicator_create senv monitor_idx w)) = next_addr w"
  using assms by (simp add: device_duplicator_create_def case_prod_unfold)

theorem create_failure_leaves_registry_witness:
  "map_of (instances example_registry) 5 = None \<and>
   snd (gs_duplicator_new example_startup (registered example_registry) 5)
     = Inl (Thrown ''Invalid monitor index'') \<and>
   fst (device_duplicator_create example_startup 5 example_registry) = None \<and>
   instances (snd (device_duplicator_create example_startup 5 example_registry)) = []"
proof -
  have a: "map_of (instances example_registry) 5 = None"
    by (simp add: example_registry_def)
  have "EnumOutputs example_startup 5 = DXGI_ERROR_NOT_FOUND"
    by (simp add: example_startup_def)
  then have f: "snd (gs_duplicator_new example_startup (registered example_registry) 5)
     = Inl (Thrown ''Invalid monitor index'')"
    by (simp add: invalid_index_fails)
  from create_failure_leaves_registry [OF a f] a f show ?thesis
    by (simp add: example_registry_def)
qed

subsection \<open>Sharing a session\<close>













subsection \<open>\<^verbatim>\<open>reset_duplicators\<close>\<close>

lemma fold_clear_updated:
  "fold (\<lambda>(k, a) h. case h a of None \<Rightarrow> h | Some d \<Rightarrow> h(a \<mapsto> d\<lparr>updated := False\<rparr>)) xs h b =
     (if b \<in> snd ` set xs then map_option (\<lambda>d. d\<lparr>updated := False\<rparr>) (h b) else h b)"
proof (induction xs arbitrary: h)
  case Nil
  show ?case by simp
next
  case (Cons x xs)
  obtain k a where x: "x = (k, a)" by (cases x)
  show ?case
    unfolding x by (cases "h a") (auto simp: Cons.IH)
qed

text \<open>
  \<^verbatim>\<open>reset_duplicators\<close> clears the fresh-frame flag of every registered session and changes
  nothing else.
\<close>

lemma reset_duplicators_heap:
  "heap (reset_duplicators w) b =
     (if b \<in> snd ` set (instances w)
      then map_option (\<lambda>d. d\<lparr>updated := False\<rparr>) (heap w b)
      else heap w b)"
  by (simp add: reset_duplicators_def fold_clear_updated)

lemma reset_duplicators_registered:
  assumes "map_of (instances w) monitor_idx = Some a" and "heap w a = Some d"
  shows "heap (reset_duplicators w) a = Some (d\<lparr>updated := False\<rparr>)"
proof -
  from assms(1) have "(monitor_idx, a) \<in> set (instances w)"
    by (rule map_of_SomeD)
  then have "a \<in> snd ` set (instances w)"
    by force
  with assms(2) show ?thesis
    by (simp add: reset_duplicators_heap)
qed

end
